theory Spec2Isabelle
  imports Complex_Main "HOL-Library.Sublist"
begin

section \<open>Values of the Python program\<close>

text \<open>
  The handler of \<^verbatim>\<open>lambda_function.py\<close> works on JSON-like dictionaries. A slot value is a
  string or \<^verbatim>\<open>None\<close>, so it is a \<open>string option\<close>. A dictionary key is a string, but
  line 187 writes under the key \<^verbatim>\<open>validation_result["violatedSlot"]\<close>, whose value may be
  \<^verbatim>\<open>None\<close>; keys are therefore \<open>string option\<close> as well, \<open>None\<close> standing for Python's
  \<^verbatim>\<open>None\<close> used as a key. A key that is missing from a dictionary is outside the domain of
  the map; a key that is present with the value \<^verbatim>\<open>None\<close> is mapped to \<open>Some None\<close>.
\<close>

type_synonym pykey = "string option"

type_synonym slot_bag = "pykey \<rightharpoonup> string option"

text \<open>
  A Python \<^verbatim>\<open>float\<close>: a finite value (held by its exact rational value), the negative
  zero, the two infinities, and not-a-number. \<open>Finite 0\<close> is the positive zero.
\<close>

datatype pyfloat = Finite rat | NegZero | PosInf | NegInf | NaN

text \<open>\<^verbatim>\<open>parse_int\<close> returns an \<^verbatim>\<open>int\<close> or the float not-a-number.\<close>

datatype pynum = PyInt int | PyFloat pyfloat

text \<open>
  Python compares a float with an integer by their exact values; every comparison with
  not-a-number is false.
\<close>

fun float_lt :: "pyfloat \<Rightarrow> int \<Rightarrow> bool" where
  "float_lt (Finite q) k = (q < of_int k)"
| "float_lt NegZero k = (0 < k)"
| "float_lt PosInf k = False"
| "float_lt NegInf k = True"
| "float_lt NaN k = False"

fun float_gt :: "pyfloat \<Rightarrow> int \<Rightarrow> bool" where
  "float_gt (Finite q) k = (q > of_int k)"
| "float_gt NegZero k = (0 > k)"
| "float_gt PosInf k = True"
| "float_gt NegInf k = False"
| "float_gt NaN k = False"

fun float_le :: "pyfloat \<Rightarrow> int \<Rightarrow> bool" where
  "float_le (Finite q) k = (q \<le> of_int k)"
| "float_le NegZero k = (0 \<le> k)"
| "float_le PosInf k = False"
| "float_le NegInf k = True"
| "float_le NaN k = False"

fun num_lt :: "pynum \<Rightarrow> int \<Rightarrow> bool" where
  "num_lt (PyInt i) k = (i < k)"
| "num_lt (PyFloat f) k = float_lt f k"

fun num_gt :: "pynum \<Rightarrow> int \<Rightarrow> bool" where
  "num_gt (PyInt i) k = (i > k)"
| "num_gt (PyFloat f) k = float_gt f k"

text \<open>
  The conversions of the Python runtime that the program calls are not code of the
  repository; they are parameters of the model: \<open>py_int s\<close> is \<^verbatim>\<open>int(s)\<close> and
  \<open>py_float s\<close> is \<^verbatim>\<open>float(s)\<close> on a string, \<open>None\<close> when the call raises
  \<^verbatim>\<open>ValueError\<close>; \<open>py_format f\<close> is the text an f-string puts for the float \<open>f\<close>.
\<close>

record builtins =
  py_int :: "string \<Rightarrow> int option"
  py_float :: "string \<Rightarrow> pyfloat option"
  py_format :: "pyfloat \<Rightarrow> string"

text \<open>The exceptions the program can end with.\<close>

datatype pyerror = KeyError pykey | Exception string

text \<open>Subscripting a dictionary: \<^verbatim>\<open>d[k]\<close> raises \<^verbatim>\<open>KeyError\<close> on a missing key.\<close>

definition getitem :: "(pykey \<rightharpoonup> 'v) \<Rightarrow> pykey \<Rightarrow> pyerror + 'v" where
  "getitem d k = (case d k of None \<Rightarrow> Inl (KeyError k) | Some v \<Rightarrow> Inr v)"

text \<open>\<^verbatim>\<open>str.format\<close> on a slot value: a string stands for itself, \<^verbatim>\<open>None\<close> prints as "None".\<close>

definition format_slot :: "string option \<Rightarrow> string" where
  "format_slot v = (case v of None \<Rightarrow> ''None'' | Some s \<Rightarrow> s)"

section \<open>Requests, validation results and responses\<close>

text \<open>
  The event always comes with the keys \<^verbatim>\<open>currentIntent\<close>, \<^verbatim>\<open>invocationSource\<close> and
  \<^verbatim>\<open>sessionAttributes\<close>, and the intent with \<^verbatim>\<open>name\<close> and \<^verbatim>\<open>slots\<close>; they are
  the fields of records. The session attributes are opaque to the handler, hence a type
  parameter. Only the slot dictionary is a map, whose keys may be missing.
\<close>

record message =
  contentType :: string
  content :: string

record current_intent =
  name :: string
  slots :: slot_bag

record 'a intent_request =
  currentIntent :: current_intent
  invocationSource :: string
  sessionAttributes :: 'a

text \<open>
  The dictionary built by \<^verbatim>\<open>build_validation_result\<close>: the keys \<^verbatim>\<open>isValid\<close> and
  \<^verbatim>\<open>violatedSlot\<close> are always there (the latter possibly with the value \<^verbatim>\<open>None\<close>),
  the key \<^verbatim>\<open>message\<close> only when a message text was given.
\<close>

record validation_result =
  isValid :: bool
  violatedSlot :: "string option"
  message :: "message option"

datatype dialog_action =
    ElicitSlot string slot_bag "string option" message
  | Delegate slot_bag
  | Close string message

record 'a response =
  out_sessionAttributes :: 'a
  dialogAction :: dialog_action

section \<open>Functionality helper functions\<close>

definition parse_int :: "builtins \<Rightarrow> string \<Rightarrow> pynum" where
  "parse_int py n = (case py_int py n of Some i \<Rightarrow> PyInt i | None \<Rightarrow> PyFloat NaN)"

definition parse_float :: "builtins \<Rightarrow> string \<Rightarrow> pyfloat" where
  "parse_float py n = (case py_float py n of Some f \<Rightarrow> f | None \<Rightarrow> NaN)"

definition build_validation_result ::
    "bool \<Rightarrow> string option \<Rightarrow> string option \<Rightarrow> validation_result" where
  "build_validation_result is_valid violated_slot message_content =
     (case message_content of
        None \<Rightarrow> \<lparr>isValid = is_valid, violatedSlot = violated_slot, message = None\<rparr>
      | Some c \<Rightarrow>
          \<lparr>isValid = is_valid, violatedSlot = violated_slot,
           message = Some \<lparr>contentType = ''PlainText'', content = c\<rparr>\<rparr>)"

section \<open>Dialog actions helper functions\<close>

definition get_slots :: "'a intent_request \<Rightarrow> slot_bag" where
  "get_slots intent_request = slots (currentIntent intent_request)"

definition elicit_slot ::
    "'a \<Rightarrow> string \<Rightarrow> slot_bag \<Rightarrow> string option \<Rightarrow> message \<Rightarrow> 'a response" where
  "elicit_slot session_attributes intent_name slots_arg slot_to_elicit msg =
     \<lparr>out_sessionAttributes = session_attributes,
      dialogAction = ElicitSlot intent_name slots_arg slot_to_elicit msg\<rparr>"

definition delegate :: "'a \<Rightarrow> slot_bag \<Rightarrow> 'a response" where
  "delegate session_attributes slots_arg =
     \<lparr>out_sessionAttributes = session_attributes, dialogAction = Delegate slots_arg\<rparr>"

definition close :: "'a \<Rightarrow> string \<Rightarrow> message \<Rightarrow> 'a response" where
  "close session_attributes fulfillment_state msg =
     \<lparr>out_sessionAttributes = session_attributes,
      dialogAction = Close fulfillment_state msg\<rparr>"

section \<open>Validation\<close>

text \<open>The message texts, as the triple-quoted literals of the source spell them.\<close>

definition msg_empty_name :: string where
  "msg_empty_name =
     ''\<newline>                You provided an empty name...'' @
     ''\<newline>                Please try again.'' @
     ''\<newline>                ''"

definition msg_too_young :: string where
  "msg_too_young =
     ''\<newline>                You have to be at least 1 year old to seek investment advise...'' @
     ''\<newline>                Please provide a different age.'' @
     ''\<newline>                ''"

definition msg_too_old :: string where
  "msg_too_old =
     ''\<newline>                This service is only valid for people less than 65 years old...'' @
     ''\<newline>                Sorry, but we cannot help you today.'' @
     ''\<newline>                ''"

definition msg_low_amount :: "builtins \<Rightarrow> pyfloat \<Rightarrow> string" where
  "msg_low_amount py investment_amount =
     ''\<newline>                You've got to be kidding me?!  I can't provide advise for $ '' @
     py_format py investment_amount @ ''!'' @
     ''\<newline>                Please provide a high amount and try again.'' @
     ''\<newline>                ''"

definition msg_bad_risk :: string where
  "msg_bad_risk = ''I didn't get that, please try again...''"

definition valid_levels :: "string list" where
  "valid_levels =
     [''Maximum'', ''Very High'', ''High'', ''Mid'', ''Low'', ''Very Low'', ''None'']"

text \<open>
  The four checks of \<^verbatim>\<open>validate_data\<close>, each the body of one
  \<^verbatim>\<open>if ... is not None\<close> block: \<open>Some r\<close> is the early \<^verbatim>\<open>return\<close> of the block,
  \<open>None\<close> is falling through to the next block.
\<close>

definition check_first_name :: "string option \<Rightarrow> validation_result option" where
  "check_first_name first_name =
     (case first_name of
        None \<Rightarrow> None
      | Some s \<Rightarrow>
          if length s = 0
          then Some (build_validation_result False (Some ''firstName'') (Some msg_empty_name))
          else None)"

definition check_age :: "builtins \<Rightarrow> string option \<Rightarrow> validation_result option" where
  "check_age py age =
     (case age of
        None \<Rightarrow> None
      | Some s \<Rightarrow>
          let age' = parse_int py s in
          if num_lt age' 1
          then Some (build_validation_result False (Some ''age'') (Some msg_too_young))
          else if num_gt age' 64
          then Some (build_validation_result False (Some ''age'') (Some msg_too_old))
          else None)"

definition check_investment_amount ::
    "builtins \<Rightarrow> string option \<Rightarrow> validation_result option" where
  "check_investment_amount py investment_amount =
     (case investment_amount of
        None \<Rightarrow> None
      | Some s \<Rightarrow>
          let investment_amount' = parse_float py s in
          if float_le investment_amount' 5000
          then Some (build_validation_result False (Some ''investmentAmount'')
                       (Some (msg_low_amount py investment_amount')))
          else None)"

definition check_risk_level :: "string option \<Rightarrow> validation_result option" where
  "check_risk_level risk_level =
     (case risk_level of
        None \<Rightarrow> None
      | Some s \<Rightarrow>
          if s \<notin> set valid_levels
          then Some (build_validation_result False (Some ''riskLevel'') (Some msg_bad_risk))
          else None)"

definition validate_data ::
    "builtins \<Rightarrow> string option \<Rightarrow> string option \<Rightarrow> string option \<Rightarrow> string option \<Rightarrow>
     'a intent_request \<Rightarrow> validation_result" where
  "validate_data py first_name age investment_amount risk_level intent_request =
     (case check_first_name first_name of
        Some r \<Rightarrow> r
      | None \<Rightarrow>
     (case check_age py age of
        Some r \<Rightarrow> r
      | None \<Rightarrow>
     (case check_investment_amount py investment_amount of
        Some r \<Rightarrow> r
      | None \<Rightarrow>
     (case check_risk_level risk_level of
        Some r \<Rightarrow> r
      | None \<Rightarrow> build_validation_result True None None))))"

section \<open>Intent handler, dispatcher and main handler\<close>

definition risk_rec_map :: "pykey \<rightharpoonup> string" where
  "risk_rec_map = map_of
     [(Some ''None'', ''100% bonds (AGG), 0% equities (SPY)''),
      (Some ''Very Low'', ''80% bonds (AGG), 20% equities (SPY)''),
      (Some ''Low'', ''60% bonds (AGG), 40% equities (SPY)''),
      (Some ''Mid'', ''40% bonds (AGG), 60% equities (SPY)''),
      (Some ''High'', ''20% bonds (AGG), 80% equities (SPY)''),
      (Some ''Very High'', ''0% bonds (AGG), 100% equities (SPY)'')]"

text \<open>The text of the closing message: the template of lines 221 to 223 with both fields filled.\<close>

definition recommendation_content :: "string option \<Rightarrow> string \<Rightarrow> string" where
  "recommendation_content first_name initial_recommendation =
     format_slot first_name @
     '' thank you for your information;'' @
     ''\<newline>            based on the risk level you defined, my recommendation is to choose an investment portfolio with '' @
     initial_recommendation @
     ''\<newline>            ''"

text \<open>
  The dialog phase of \<^verbatim>\<open>recommend_portfolio\<close> (lines 173 to 201), after the four slots
  have been read. The assignment of line 187 updates the slot dictionary of the request in
  place; the model passes the updated dictionary on to the response that holds it.
\<close>

definition dialog_code_hook ::
    "builtins \<Rightarrow> 'a intent_request \<Rightarrow> string option \<Rightarrow> string option \<Rightarrow> string option \<Rightarrow>
     string option \<Rightarrow> pyerror + 'a response" where
  "dialog_code_hook py intent_request first_name age investment_amount risk_level =
     (let slots_var = get_slots intent_request;
          validation_result =
            validate_data py first_name age investment_amount risk_level intent_request
      in if \<not> isValid validation_result
         then
           (let slots_var' = slots_var(violatedSlot validation_result \<mapsto> None)
            in case message validation_result of
                 None \<Rightarrow> Inl (KeyError (Some ''message''))
               | Some m \<Rightarrow>
                   Inr (elicit_slot (sessionAttributes intent_request)
                          (name (currentIntent intent_request))
                          slots_var'
                          (violatedSlot validation_result)
                          m))
         else
           (let output_session_attributes = sessionAttributes intent_request
            in Inr (delegate output_session_attributes (get_slots intent_request))))"

text \<open>The fulfillment phase (lines 203 to 227).\<close>

definition fulfillment ::
    "'a intent_request \<Rightarrow> string option \<Rightarrow> string option \<Rightarrow> pyerror + 'a response" where
  "fulfillment intent_request first_name risk_level =
     (case getitem risk_rec_map risk_level of
        Inl e \<Rightarrow> Inl e
      | Inr initial_recommendation \<Rightarrow>
          Inr (close (sessionAttributes intent_request) ''Fulfilled''
                 \<lparr>contentType = ''PlainText'',
                  content = recommendation_content first_name initial_recommendation\<rparr>))"

definition recommend_portfolio :: "builtins \<Rightarrow> 'a intent_request \<Rightarrow> pyerror + 'a response" where
  "recommend_portfolio py intent_request =
     (case getitem (get_slots intent_request) (Some ''firstName'') of
        Inl e \<Rightarrow> Inl e
      | Inr first_name \<Rightarrow>
     (case getitem (get_slots intent_request) (Some ''age'') of
        Inl e \<Rightarrow> Inl e
      | Inr age \<Rightarrow>
     (case getitem (get_slots intent_request) (Some ''investmentAmount'') of
        Inl e \<Rightarrow> Inl e
      | Inr investment_amount \<Rightarrow>
     (case getitem (get_slots intent_request) (Some ''riskLevel'') of
        Inl e \<Rightarrow> Inl e
      | Inr risk_level \<Rightarrow>
          let source = invocationSource intent_request
          in if source = ''DialogCodeHook''
             then dialog_code_hook py intent_request first_name age investment_amount risk_level
             else fulfillment intent_request first_name risk_level))))"

definition dispatch :: "builtins \<Rightarrow> 'a intent_request \<Rightarrow> pyerror + 'a response" where
  "dispatch py intent_request =
     (let intent_name = name (currentIntent intent_request)
      in if intent_name = ''RecommendPortfolio''
         then recommend_portfolio py intent_request
         else Inl (Exception (''Intent with name '' @ intent_name @ '' not supported'')))"

definition lambda_handler ::
    "builtins \<Rightarrow> 'a intent_request \<Rightarrow> 'c \<Rightarrow> pyerror + 'a response" where
  "lambda_handler py event context = dispatch py event"

section \<open>An instance of the runtime conversions for running examples\<close>

text \<open>
  Plain decimal literals: an optional sign followed by ASCII digits. On these strings
  \<^verbatim>\<open>int\<close> gives the number and, for a literal of at most fifteen characters, \<^verbatim>\<open>float\<close>
  gives the same number exactly and an f-string prints it with \<^verbatim>\<open>.0\<close> appended. The
  instance is used in the examples on plain literals and on strings that both conversions
  of Python reject too; it says nothing about the other strings that Python converts
  (fractions, exponents, underscores, surrounding white space).
\<close>

definition is_digit :: "char \<Rightarrow> bool" where
  "is_digit c = (c \<in> set ''0123456789'')"

definition digit_value :: "char \<Rightarrow> nat" where
  "digit_value c = of_char c - 48"

fun digits_value :: "nat \<Rightarrow> string \<Rightarrow> nat" where
  "digits_value acc [] = acc"
| "digits_value acc (c # cs) = digits_value (10 * acc + digit_value c) cs"

definition plain_nat :: "string \<Rightarrow> nat option" where
  "plain_nat s = (if s \<noteq> [] \<and> list_all is_digit s then Some (digits_value 0 s) else None)"

definition plain_int :: "string \<Rightarrow> int option" where
  "plain_int s =
     (case s of
        [] \<Rightarrow> None
      | c # cs \<Rightarrow>
          if c = CHR ''-'' then map_option (\<lambda>n. - int n) (plain_nat cs)
          else if c = CHR ''+'' then map_option int (plain_nat cs)
          else map_option int (plain_nat s))"

definition plain_float :: "string \<Rightarrow> pyfloat option" where
  "plain_float s =
     (if length s \<le> 15
      then (case plain_int s of
              None \<Rightarrow> None
            | Some i \<Rightarrow>
                if i = 0 \<and> take 1 s = ''-'' then Some NegZero else Some (Finite (of_int i)))
      else None)"

fun nat_digits :: "nat \<Rightarrow> nat \<Rightarrow> string" where
  "nat_digits 0 n = []"
| "nat_digits (Suc fuel) n =
     (if n < 10 then [char_of (48 + n)]
      else nat_digits fuel (n div 10) @ [char_of (48 + n mod 10)])"

definition plain_format :: "pyfloat \<Rightarrow> string" where
  "plain_format f =
     (case f of
        Finite q \<Rightarrow>
          (let i = \<lfloor>q\<rfloor>
           in (if i < 0 then ''-'' else []) @ nat_digits 16 (nat \<bar>i\<bar>) @ ''.0'')
      | NegZero \<Rightarrow> ''-0.0''
      | PosInf \<Rightarrow> ''inf''
      | NegInf \<Rightarrow> ''-inf''
      | NaN \<Rightarrow> ''nan'')"

definition plain_builtins :: builtins where
  "plain_builtins = \<lparr>py_int = plain_int, py_float = plain_float, py_format = plain_format\<rparr>"

section \<open>Example requests\<close>

definition example_slots ::
    "string option \<Rightarrow> string option \<Rightarrow> string option \<Rightarrow> string option \<Rightarrow> slot_bag" where
  "example_slots first_name age investment_amount risk_level =
     [Some ''firstName'' \<mapsto> first_name, Some ''age'' \<mapsto> age,
      Some ''investmentAmount'' \<mapsto> investment_amount, Some ''riskLevel'' \<mapsto> risk_level]"

definition example_request ::
    "string \<Rightarrow> slot_bag \<Rightarrow> (string \<times> string) list intent_request" where
  "example_request source slot_dict =
     \<lparr>currentIntent = \<lparr>name = ''RecommendPortfolio'', slots = slot_dict\<rparr>,
      invocationSource = source,
      sessionAttributes = [(''user'', ''42'')]\<rparr>"

section \<open>The validation rules as the specification words them\<close>

text \<open>
  The four rules of the specification, each saying when a slot is in violation. A slot
  that is absent violates nothing; a numeric slot violates its rule only when its text
  converts to a number and that number is out of range.
\<close>

definition spec_name_violation :: "string option \<Rightarrow> bool" where
  "spec_name_violation first_name = (first_name = Some [])"

definition spec_age_violation :: "builtins \<Rightarrow> string option \<Rightarrow> bool" where
  "spec_age_violation py age =
     (case age of
        None \<Rightarrow> False
      | Some s \<Rightarrow> (case py_int py s of None \<Rightarrow> False | Some n \<Rightarrow> n < 1 \<or> 64 < n))"

definition spec_amount_violation :: "builtins \<Rightarrow> string option \<Rightarrow> bool" where
  "spec_amount_violation py investment_amount =
     (case investment_amount of
        None \<Rightarrow> False
      | Some s \<Rightarrow> (case py_float py s of None \<Rightarrow> False | Some f \<Rightarrow> float_le f 5000))"

definition spec_risk_violation :: "string option \<Rightarrow> bool" where
  "spec_risk_violation risk_level =
     (case risk_level of
        None \<Rightarrow> False
      | Some s \<Rightarrow>
          s \<notin> {''Maximum'', ''Very High'', ''High'', ''Mid'', ''Low'', ''Very Low'', ''None''})"

text \<open>The four slot names of the intent.\<close>

definition slot_names :: "string set" where
  "slot_names = {''firstName'', ''age'', ''investmentAmount'', ''riskLevel''}"

section \<open>Facts about the helper functions\<close>

lemma check_first_name_None:
  "check_first_name first_name = None \<longleftrightarrow> \<not> spec_name_violation first_name"
  by (simp add: check_first_name_def spec_name_violation_def split: option.splits)

lemma check_first_name_Some:
  "check_first_name first_name = Some r \<Longrightarrow>
     r = build_validation_result False (Some ''firstName'') (Some msg_empty_name)"
  by (simp add: check_first_name_def split: option.splits if_splits)

lemma age_comparisons:
  "num_lt (parse_int py s) 1 \<or> num_gt (parse_int py s) 64 \<longleftrightarrow>
     spec_age_violation py (Some s)"
  by (cases "py_int py s") (simp_all add: parse_int_def spec_age_violation_def)

lemma check_age_None:
  "check_age py age = None \<longleftrightarrow> \<not> spec_age_violation py age"
proof (cases age)
  case None
  then show ?thesis by (simp add: check_age_def spec_age_violation_def)
next
  case (Some s)
  have "check_age py (Some s) = None \<longleftrightarrow>
          \<not> (num_lt (parse_int py s) 1 \<or> num_gt (parse_int py s) 64)"
    by (simp add: check_age_def Let_def)
  with Some show ?thesis
    by (simp add: age_comparisons)
qed

lemma check_age_Some:
  "check_age py age = Some r \<Longrightarrow>
     r = build_validation_result False (Some ''age'') (Some msg_too_young) \<or>
     r = build_validation_result False (Some ''age'') (Some msg_too_old)"
  by (auto simp: check_age_def Let_def split: option.splits if_splits)

lemma amount_comparison:
  "float_le (parse_float py s) 5000 \<longleftrightarrow> spec_amount_violation py (Some s)"
  by (cases "py_float py s") (simp_all add: parse_float_def spec_amount_violation_def)

lemma check_investment_amount_None:
  "check_investment_amount py investment_amount = None \<longleftrightarrow>
     \<not> spec_amount_violation py investment_amount"
proof (cases investment_amount)
  case None
  then show ?thesis by (simp add: check_investment_amount_def spec_amount_violation_def)
next
  case (Some s)
  have "check_investment_amount py (Some s) = None \<longleftrightarrow> \<not> float_le (parse_float py s) 5000"
    by (simp add: check_investment_amount_def Let_def)
  with Some show ?thesis
    by (simp add: amount_comparison)
qed

lemma check_investment_amount_Some:
  "check_investment_amount py investment_amount = Some r \<Longrightarrow>
     \<exists>f. r = build_validation_result False (Some ''investmentAmount'')
               (Some (msg_low_amount py f))"
  by (auto simp: check_investment_amount_def Let_def split: option.splits if_splits)

lemma check_risk_level_None:
  "check_risk_level risk_level = None \<longleftrightarrow> \<not> spec_risk_violation risk_level"
  by (cases risk_level)
     (simp_all add: check_risk_level_def spec_risk_violation_def valid_levels_def)

lemma check_risk_level_Some:
  "check_risk_level risk_level = Some r \<Longrightarrow>
     r = build_validation_result False (Some ''riskLevel'') (Some msg_bad_risk)"
  by (simp add: check_risk_level_def split: option.splits if_splits)

lemma build_validation_result_Some:
  "build_validation_result b v (Some c) =
     \<lparr>isValid = b, violatedSlot = v,
      message = Some \<lparr>contentType = ''PlainText'', content = c\<rparr>\<rparr>"
  by (simp add: build_validation_result_def)

lemma build_validation_result_None:
  "build_validation_result b v None = \<lparr>isValid = b, violatedSlot = v, message = None\<rparr>"
  by (simp add: build_validation_result_def)

text \<open>The five ways out of \<^verbatim>\<open>validate_data\<close>, in the order of the source.\<close>

lemma validate_data_name:
  "spec_name_violation first_name \<Longrightarrow>
     validate_data py first_name age investment_amount risk_level req =
       build_validation_result False (Some ''firstName'') (Some msg_empty_name)"
  by (simp add: validate_data_def check_first_name_def spec_name_violation_def)

lemma validate_data_age:
  assumes "\<not> spec_name_violation first_name" and "spec_age_violation py age"
  shows "\<exists>c. validate_data py first_name age investment_amount risk_level req =
              build_validation_result False (Some ''age'') (Some c)"
proof -
  from assms(2) obtain r where r: "check_age py age = Some r"
    using check_age_None [of py age] by auto
  from assms(1) have "check_first_name first_name = None"
    by (simp add: check_first_name_None)
  with r have "validate_data py first_name age investment_amount risk_level req = r"
    by (simp add: validate_data_def)
  with check_age_Some [OF r] show ?thesis by auto
qed

lemma validate_data_amount:
  assumes "\<not> spec_name_violation first_name" and "\<not> spec_age_violation py age"
    and "spec_amount_violation py investment_amount"
  shows "\<exists>c. validate_data py first_name age investment_amount risk_level req =
              build_validation_result False (Some ''investmentAmount'') (Some c)"
proof -
  from assms(3) obtain r where r: "check_investment_amount py investment_amount = Some r"
    using check_investment_amount_None [of py investment_amount] by auto
  from assms(1,2) have "check_first_name first_name = None" "check_age py age = None"
    by (simp_all add: check_first_name_None check_age_None)
  with r have "validate_data py first_name age investment_amount risk_level req = r"
    by (simp add: validate_data_def)
  with check_investment_amount_Some [OF r] show ?thesis by auto
qed

lemma validate_data_risk:
  assumes "\<not> spec_name_violation first_name" and "\<not> spec_age_violation py age"
    and "\<not> spec_amount_violation py investment_amount"
    and "spec_risk_violation risk_level"
  shows "validate_data py first_name age investment_amount risk_level req =
           build_validation_result False (Some ''riskLevel'') (Some msg_bad_risk)"
proof -
  from assms(4) obtain r where r: "check_risk_level risk_level = Some r"
    using check_risk_level_None [of risk_level] by auto
  from assms(1,2,3) have "check_first_name first_name = None" "check_age py age = None"
      "check_investment_amount py investment_amount = None"
    by (simp_all add: check_first_name_None check_age_None check_investment_amount_None)
  with r have "validate_data py first_name age investment_amount risk_level req = r"
    by (simp add: validate_data_def)
  with check_risk_level_Some [OF r] show ?thesis by simp
qed

lemma validate_data_valid:
  assumes "\<not> spec_name_violation first_name" and "\<not> spec_age_violation py age"
    and "\<not> spec_amount_violation py investment_amount"
    and "\<not> spec_risk_violation risk_level"
  shows "validate_data py first_name age investment_amount risk_level req =
           build_validation_result True None None"
proof -
  from assms have "check_first_name first_name = None" "check_age py age = None"
      "check_investment_amount py investment_amount = None"
      "check_risk_level risk_level = None"
    by (simp_all add: check_first_name_None check_age_None check_investment_amount_None
          check_risk_level_None)
  then show ?thesis by (simp add: validate_data_def)
qed

text \<open>Every result of \<^verbatim>\<open>validate_data\<close> has one of two shapes.\<close>

lemma slot_names_member:
  "''firstName'' \<in> slot_names" "''age'' \<in> slot_names"
  "''investmentAmount'' \<in> slot_names" "''riskLevel'' \<in> slot_names"
  by (simp_all add: slot_names_def)

lemma validate_data_shape:
  "validate_data py first_name age investment_amount risk_level req =
     build_validation_result True None None \<or>
   (\<exists>v c. v \<in> slot_names \<and>
      validate_data py first_name age investment_amount risk_level req =
        build_validation_result False (Some v) (Some c))"
  (is "?valid \<or> ?invalid")
proof (cases "spec_name_violation first_name")
  case True
  from validate_data_name [OF True] slot_names_member(1) have ?invalid by fast
  then show ?thesis ..
next
  case n: False
  show ?thesis
  proof (cases "spec_age_violation py age")
    case True
    from validate_data_age [OF n True] slot_names_member(2) have ?invalid by fast
    then show ?thesis ..
  next
    case a: False
    show ?thesis
    proof (cases "spec_amount_violation py investment_amount")
      case True
      from validate_data_amount [OF n a True] slot_names_member(3) have ?invalid by fast
      then show ?thesis ..
    next
      case m: False
      show ?thesis
      proof (cases "spec_risk_violation risk_level")
        case True
        from validate_data_risk [OF n a m True] slot_names_member(4) have ?invalid by fast
        then show ?thesis ..
      next
        case False
        from validate_data_valid [OF n a m False] show ?thesis ..
      qed
    qed
  qed
qed

text \<open>The result for an amount that converts to a float of at most 5000.\<close>

lemma validate_data_low_amount:
  assumes "\<not> spec_name_violation first_name" and "\<not> spec_age_violation py age"
    and "py_float py s = Some f" and "float_le f 5000"
  shows "validate_data py first_name age (Some s) risk_level req =
           build_validation_result False (Some ''investmentAmount'')
             (Some (msg_low_amount py f))"
proof -
  from assms(1,2) have "check_first_name first_name = None" "check_age py age = None"
    by (simp_all add: check_first_name_None check_age_None)
  moreover from assms(3,4) have "check_investment_amount py (Some s) =
      Some (build_validation_result False (Some ''investmentAmount'')
             (Some (msg_low_amount py f)))"
    by (simp add: check_investment_amount_def parse_float_def)
  ultimately show ?thesis by (simp add: validate_data_def)
qed

section \<open>Facts about the intent handler\<close>

text \<open>Once the four slots are read, the handler is one of its two phases.\<close>

lemma recommend_portfolio_slots_present:
  assumes "slots (currentIntent req) (Some ''firstName'') = Some first_name"
    and "slots (currentIntent req) (Some ''age'') = Some age"
    and "slots (currentIntent req) (Some ''investmentAmount'') = Some investment_amount"
    and "slots (currentIntent req) (Some ''riskLevel'') = Some risk_level"
  shows "recommend_portfolio py req =
           (if invocationSource req = ''DialogCodeHook''
            then dialog_code_hook py req first_name age investment_amount risk_level
            else fulfillment req first_name risk_level)"
  using assms by (simp add: recommend_portfolio_def getitem_def get_slots_def)

text \<open>A missing slot key ends the handler at the first subscript that misses.\<close>

lemma recommend_portfolio_missing_first_name:
  "slots (currentIntent req) (Some ''firstName'') = None \<Longrightarrow>
     recommend_portfolio py req = Inl (KeyError (Some ''firstName''))"
  by (simp add: recommend_portfolio_def getitem_def get_slots_def)

lemma recommend_portfolio_missing_age:
  "slots (currentIntent req) (Some ''firstName'') \<noteq> None \<Longrightarrow>
   slots (currentIntent req) (Some ''age'') = None \<Longrightarrow>
     recommend_portfolio py req = Inl (KeyError (Some ''age''))"
  by (auto simp: recommend_portfolio_def getitem_def get_slots_def)

lemma recommend_portfolio_missing_investment_amount:
  "slots (currentIntent req) (Some ''firstName'') \<noteq> None \<Longrightarrow>
   slots (currentIntent req) (Some ''age'') \<noteq> None \<Longrightarrow>
   slots (currentIntent req) (Some ''investmentAmount'') = None \<Longrightarrow>
     recommend_portfolio py req = Inl (KeyError (Some ''investmentAmount''))"
  by (auto simp: recommend_portfolio_def getitem_def get_slots_def)

lemma recommend_portfolio_missing_risk_level:
  "slots (currentIntent req) (Some ''firstName'') \<noteq> None \<Longrightarrow>
   slots (currentIntent req) (Some ''age'') \<noteq> None \<Longrightarrow>
   slots (currentIntent req) (Some ''investmentAmount'') \<noteq> None \<Longrightarrow>
   slots (currentIntent req) (Some ''riskLevel'') = None \<Longrightarrow>
     recommend_portfolio py req = Inl (KeyError (Some ''riskLevel''))"
  by (auto simp: recommend_portfolio_def getitem_def get_slots_def)

lemma risk_rec_map_Maximum: "risk_rec_map (Some ''Maximum'') = None"
  by (simp add: risk_rec_map_def)

lemma risk_rec_map_High:
  "risk_rec_map (Some ''High'') = Some ''20% bonds (AGG), 80% equities (SPY)''"
  by (simp add: risk_rec_map_def)

lemma fulfillment_found:
  "risk_rec_map risk_level = Some rec \<Longrightarrow>
     fulfillment req first_name risk_level =
       Inr \<lparr>out_sessionAttributes = sessionAttributes req,
            dialogAction = Close ''Fulfilled''
              \<lparr>contentType = ''PlainText'',
               content = recommendation_content first_name rec\<rparr>\<rparr>"
  by (simp add: fulfillment_def getitem_def close_def)

lemma fulfillment_not_found:
  "risk_rec_map risk_level = None \<Longrightarrow>
     fulfillment req first_name risk_level = Inl (KeyError risk_level)"
  by (simp add: fulfillment_def getitem_def)

lemma dialog_code_hook_valid:
  "isValid (validate_data py first_name age investment_amount risk_level req) \<Longrightarrow>
     dialog_code_hook py req first_name age investment_amount risk_level =
       Inr \<lparr>out_sessionAttributes = sessionAttributes req,
            dialogAction = Delegate (slots (currentIntent req))\<rparr>"
  by (simp add: dialog_code_hook_def Let_def delegate_def get_slots_def)

lemma dialog_code_hook_invalid:
  assumes "\<not> isValid (validate_data py first_name age investment_amount risk_level req)"
    and "violatedSlot (validate_data py first_name age investment_amount risk_level req) = v"
    and "message (validate_data py first_name age investment_amount risk_level req) = Some m"
  shows "dialog_code_hook py req first_name age investment_amount risk_level =
       Inr \<lparr>out_sessionAttributes = sessionAttributes req,
            dialogAction = ElicitSlot (name (currentIntent req))
              ((slots (currentIntent req))(v \<mapsto> None)) v m\<rparr>"
  using assms by (simp add: dialog_code_hook_def Let_def elicit_slot_def get_slots_def)

lemma sublist_in_middle: "sublist x (a @ b @ c @ x @ d)"
proof -
  have "a @ b @ c @ x @ d = (a @ b @ c) @ x @ d" by simp
  then show ?thesis by (simp only: sublist_appendI)
qed

lemma sublist_recommendation_content:
  "sublist (format_slot first_name) (recommendation_content first_name rec)"
  "sublist rec (recommendation_content first_name rec)"
  unfolding recommendation_content_def
  by (rule sublist_append_rightI, rule sublist_in_middle)

section \<open>Claims\<close>

text \<open>
  C4. Every result returned by \<^verbatim>\<open>validate_data\<close> satisfies the invariant of a
  validation result: the violated slot and the message are both present or both absent, and
  both are absent whenever the result is valid. (An invalid result has both.)
\<close>

theorem validate_data_result_invariant:
  fixes req :: "'a intent_request"
  shows
  "(violatedSlot (validate_data py first_name age investment_amount risk_level req) = None \<longleftrightarrow>
      message (validate_data py first_name age investment_amount risk_level req) = None) \<and>
   (isValid (validate_data py first_name age investment_amount risk_level req) \<longrightarrow>
      violatedSlot (validate_data py first_name age investment_amount risk_level req) = None \<and>
      message (validate_data py first_name age investment_amount risk_level req) = None) \<and>
   (\<not> isValid (validate_data py first_name age investment_amount risk_level req) \<longrightarrow>
      violatedSlot (validate_data py first_name age investment_amount risk_level req) \<noteq> None \<and>
      message (validate_data py first_name age investment_amount risk_level req) \<noteq> None)"
proof -
  let ?r = "validate_data py first_name age investment_amount risk_level req"
  from validate_data_shape [of py first_name age investment_amount risk_level req]
  consider "?r = build_validation_result True None None"
    | v c where "?r = build_validation_result False (Some v) (Some c)"
    by fast
  then show ?thesis
  proof cases
    case 1
    then show ?thesis by (simp add: build_validation_result_None)
  next
    case 2
    then show ?thesis by (simp add: build_validation_result_Some)
  qed
qed

theorem validate_data_result_invariant_witness:
  "isValid (validate_data plain_builtins (Some ''Jo'') (Some ''30'') (Some ''10000'')
      (Some ''Mid'') (example_request ''DialogCodeHook'' Map.empty)) \<and>
   violatedSlot (validate_data plain_builtins (Some ''Jo'') (Some ''30'') (Some ''10000'')
      (Some ''Mid'') (example_request ''DialogCodeHook'' Map.empty)) = None \<and>
   message (validate_data plain_builtins (Some ''Jo'') (Some ''30'') (Some ''10000'')
      (Some ''Mid'') (example_request ''DialogCodeHook'' Map.empty)) = None \<and>
   \<not> isValid (validate_data plain_builtins (Some '''') (Some ''200'') None
      None (example_request ''DialogCodeHook'' Map.empty)) \<and>
   violatedSlot (validate_data plain_builtins (Some '''') (Some ''200'') None
      None (example_request ''DialogCodeHook'' Map.empty)) \<noteq> None \<and>
   message (validate_data plain_builtins (Some '''') (Some ''200'') None
      None (example_request ''DialogCodeHook'' Map.empty)) \<noteq> None"
proof -
  have valid: "isValid (validate_data plain_builtins (Some ''Jo'') (Some ''30'') (Some ''10000'')
      (Some ''Mid'') (example_request ''DialogCodeHook'' Map.empty))"
    by code_simp
  have invalid: "\<not> isValid (validate_data plain_builtins (Some '''') (Some ''200'') None
      None (example_request ''DialogCodeHook'' Map.empty))"
    by code_simp
  from valid invalid
    validate_data_result_invariant [of plain_builtins "Some ''Jo''" "Some ''30''" "Some ''10000''"
      "Some ''Mid''" "example_request ''DialogCodeHook'' Map.empty"]
    validate_data_result_invariant [of plain_builtins "Some ''''" "Some ''200''" None
      None "example_request ''DialogCodeHook'' Map.empty"]
  show ?thesis by fast
qed

text \<open>
  C3. \<^verbatim>\<open>validate_data\<close> evaluates the rules in the fixed order first name, age,
  investment amount, risk level, and reports the first violation only: a slot is named as
  violated exactly when its rule is violated and no rule before it is. With an empty first
  name the result names \<^verbatim>\<open>firstName\<close> whatever the other slots hold, as for the age
  \<^verbatim>\<open>200\<close>.
\<close>

theorem validate_data_first_violation_wins:
  fixes req :: "'a intent_request"
  shows
  "(spec_name_violation first_name \<longrightarrow>
      \<not> isValid (validate_data py first_name age investment_amount risk_level req) \<and>
      violatedSlot (validate_data py first_name age investment_amount risk_level req) =
        Some ''firstName'') \<and>
   (\<not> spec_name_violation first_name \<and> spec_age_violation py age \<longrightarrow>
      \<not> isValid (validate_data py first_name age investment_amount risk_level req) \<and>
      violatedSlot (validate_data py first_name age investment_amount risk_level req) =
        Some ''age'') \<and>
   (\<not> spec_name_violation first_name \<and> \<not> spec_age_violation py age \<and>
    spec_amount_violation py investment_amount \<longrightarrow>
      \<not> isValid (validate_data py first_name age investment_amount risk_level req) \<and>
      violatedSlot (validate_data py first_name age investment_amount risk_level req) =
        Some ''investmentAmount'') \<and>
   (\<not> spec_name_violation first_name \<and> \<not> spec_age_violation py age \<and>
    \<not> spec_amount_violation py investment_amount \<and> spec_risk_violation risk_level \<longrightarrow>
      \<not> isValid (validate_data py first_name age investment_amount risk_level req) \<and>
      violatedSlot (validate_data py first_name age investment_amount risk_level req) =
        Some ''riskLevel'') \<and>
   (\<not> spec_name_violation first_name \<and> \<not> spec_age_violation py age \<and>
    \<not> spec_amount_violation py investment_amount \<and> \<not> spec_risk_violation risk_level \<longrightarrow>
      isValid (validate_data py first_name age investment_amount risk_level req) \<and>
      violatedSlot (validate_data py first_name age investment_amount risk_level req) = None) \<and>
   violatedSlot (validate_data py (Some '''') (Some ''200'') investment_amount risk_level req) =
     Some ''firstName''"
proof (intro conjI impI)
  assume n: "spec_name_violation first_name"
  show "\<not> isValid (validate_data py first_name age investment_amount risk_level req)"
    and "violatedSlot (validate_data py first_name age investment_amount risk_level req) =
           Some ''firstName''"
    by (simp_all add: validate_data_name [OF n] build_validation_result_Some)
next
  assume h: "\<not> spec_name_violation first_name \<and> spec_age_violation py age"
  from h validate_data_age [of first_name py age investment_amount risk_level req]
  obtain c where "validate_data py first_name age investment_amount risk_level req =
      build_validation_result False (Some ''age'') (Some c)"
    by fast
  then show "\<not> isValid (validate_data py first_name age investment_amount risk_level req)"
    and "violatedSlot (validate_data py first_name age investment_amount risk_level req) =
           Some ''age''"
    by (simp_all add: build_validation_result_Some)
next
  assume h: "\<not> spec_name_violation first_name \<and> \<not> spec_age_violation py age \<and>
    spec_amount_violation py investment_amount"
  from h validate_data_amount [of first_name py age investment_amount risk_level req]
  obtain c where "validate_data py first_name age investment_amount risk_level req =
      build_validation_result False (Some ''investmentAmount'') (Some c)"
    by fast
  then show "\<not> isValid (validate_data py first_name age investment_amount risk_level req)"
    and "violatedSlot (validate_data py first_name age investment_amount risk_level req) =
           Some ''investmentAmount''"
    by (simp_all add: build_validation_result_Some)
next
  assume h: "\<not> spec_name_violation first_name \<and> \<not> spec_age_violation py age \<and>
    \<not> spec_amount_violation py investment_amount \<and> spec_risk_violation risk_level"
  from h validate_data_risk [of first_name py age investment_amount risk_level req]
  have "validate_data py first_name age investment_amount risk_level req =
      build_validation_result False (Some ''riskLevel'') (Some msg_bad_risk)"
    by fast
  then show "\<not> isValid (validate_data py first_name age investment_amount risk_level req)"
    and "violatedSlot (validate_data py first_name age investment_amount risk_level req) =
           Some ''riskLevel''"
    by (simp_all add: build_validation_result_Some)
next
  assume h: "\<not> spec_name_violation first_name \<and> \<not> spec_age_violation py age \<and>
    \<not> spec_amount_violation py investment_amount \<and> \<not> spec_risk_violation risk_level"
  from h validate_data_valid [of first_name py age investment_amount risk_level req]
  have "validate_data py first_name age investment_amount risk_level req =
      build_validation_result True None None"
    by fast
  then show "isValid (validate_data py first_name age investment_amount risk_level req)"
    and "violatedSlot (validate_data py first_name age investment_amount risk_level req) = None"
    by (simp_all add: build_validation_result_None)
next
  have "spec_name_violation (Some '''')"
    by (simp add: spec_name_violation_def)
  then show "violatedSlot (validate_data py (Some '''') (Some ''200'') investment_amount risk_level req) =
     Some ''firstName''"
    by (simp add: validate_data_name build_validation_result_Some)
qed

theorem validate_data_first_violation_wins_witness:
  "spec_name_violation (Some '''') \<and> spec_age_violation plain_builtins (Some ''200'') \<and>
   violatedSlot (validate_data plain_builtins (Some '''') (Some ''200'') None None
      (example_request ''DialogCodeHook'' Map.empty)) = Some ''firstName'' \<and>
   \<not> spec_name_violation (Some ''Jo'') \<and> spec_amount_violation plain_builtins (Some ''3000'') \<and>
   violatedSlot (validate_data plain_builtins (Some ''Jo'') (Some ''200'') (Some ''3000'') None
      (example_request ''DialogCodeHook'' Map.empty)) = Some ''age'' \<and>
   \<not> spec_age_violation plain_builtins (Some ''30'') \<and> spec_risk_violation (Some ''Extreme'') \<and>
   violatedSlot (validate_data plain_builtins (Some ''Jo'') (Some ''30'') (Some ''3000'')
      (Some ''Extreme'') (example_request ''DialogCodeHook'' Map.empty)) =
     Some ''investmentAmount'' \<and>
   \<not> spec_amount_violation plain_builtins (Some ''10000'') \<and>
   violatedSlot (validate_data plain_builtins (Some ''Jo'') (Some ''30'') (Some ''10000'')
      (Some ''Extreme'') (example_request ''DialogCodeHook'' Map.empty)) = Some ''riskLevel'' \<and>
   \<not> spec_risk_violation (Some ''Mid'') \<and>
   isValid (validate_data plain_builtins (Some ''Jo'') (Some ''30'') (Some ''10000'')
      (Some ''Mid'') (example_request ''DialogCodeHook'' Map.empty))"
proof -
  have n1: "spec_name_violation (Some '''')" and n2: "\<not> spec_name_violation (Some ''Jo'')"
    by (simp_all add: spec_name_violation_def)
  have a1: "spec_age_violation plain_builtins (Some ''200'')"
    and a2: "\<not> spec_age_violation plain_builtins (Some ''30'')"
    by code_simp+
  have m1: "spec_amount_violation plain_builtins (Some ''3000'')"
    and m2: "\<not> spec_amount_violation plain_builtins (Some ''10000'')"
    by code_simp+
  have r1: "spec_risk_violation (Some ''Extreme'')" and r2: "\<not> spec_risk_violation (Some ''Mid'')"
    by (simp_all add: spec_risk_violation_def)
  have v1: "violatedSlot (validate_data plain_builtins (Some '''') (Some ''200'') None None
      (example_request ''DialogCodeHook'' Map.empty)) = Some ''firstName''"
    using n1
      validate_data_first_violation_wins [where py = plain_builtins and first_name = "Some ''''"
        and age = "Some ''200''" and investment_amount = "None" and risk_level = "None"
        and req = "example_request ''DialogCodeHook'' Map.empty"]
    by simp
  have v2: "violatedSlot (validate_data plain_builtins (Some ''Jo'') (Some ''200'') (Some ''3000'') None
      (example_request ''DialogCodeHook'' Map.empty)) = Some ''age''"
    using n2 a1
      validate_data_first_violation_wins [where py = plain_builtins and first_name = "Some ''Jo''"
        and age = "Some ''200''" and investment_amount = "Some ''3000''" and risk_level = "None"
        and req = "example_request ''DialogCodeHook'' Map.empty"]
    by simp
  have v3: "violatedSlot (validate_data plain_builtins (Some ''Jo'') (Some ''30'') (Some ''3000'')
      (Some ''Extreme'') (example_request ''DialogCodeHook'' Map.empty)) =
     Some ''investmentAmount''"
    using n2 a2 m1
      validate_data_first_violation_wins [where py = plain_builtins and first_name = "Some ''Jo''"
        and age = "Some ''30''" and investment_amount = "Some ''3000''" and risk_level = "Some ''Extreme''"
        and req = "example_request ''DialogCodeHook'' Map.empty"]
    by simp
  have v4: "violatedSlot (validate_data plain_builtins (Some ''Jo'') (Some ''30'') (Some ''10000'')
      (Some ''Extreme'') (example_request ''DialogCodeHook'' Map.empty)) = Some ''riskLevel''"
    using n2 a2 m2 r1
      validate_data_first_violation_wins [where py = plain_builtins and first_name = "Some ''Jo''"
        and age = "Some ''30''" and investment_amount = "Some ''10000''" and risk_level = "Some ''Extreme''"
        and req = "example_request ''DialogCodeHook'' Map.empty"]
    by simp
  have v5: "isValid (validate_data plain_builtins (Some ''Jo'') (Some ''30'') (Some ''10000'')
      (Some ''Mid'') (example_request ''DialogCodeHook'' Map.empty))"
    using n2 a2 m2 r2
      validate_data_first_violation_wins [where py = plain_builtins and first_name = "Some ''Jo''"
        and age = "Some ''30''" and investment_amount = "Some ''10000''" and risk_level = "Some ''Mid''"
        and req = "example_request ''DialogCodeHook'' Map.empty"]
    by simp
  from n1 n2 a1 a2 m1 m2 r1 r2 v1 v2 v3 v4 v5 show ?thesis by simp
qed

text \<open>
  C8. For a present age whose text converts to the integer \<open>n\<close>, the other slots being
  absent or not in violation: \<^verbatim>\<open>validate_data\<close> returns a valid result exactly when
  \<open>1 \<le> n \<le> 64\<close>, and for \<open>n < 1\<close> or \<open>n > 64\<close> it returns an invalid result
  whose violated slot is \<^verbatim>\<open>age\<close>.
\<close>

theorem validate_data_age_range:
  fixes req :: "'a intent_request"
  assumes "py_int py s = Some n"
    and "\<not> spec_name_violation first_name"
    and "\<not> spec_amount_violation py investment_amount"
    and "\<not> spec_risk_violation risk_level"
  shows
    "(isValid (validate_data py first_name (Some s) investment_amount risk_level req) \<longleftrightarrow>
        1 \<le> n \<and> n \<le> 64) \<and>
     (n < 1 \<or> 64 < n \<longrightarrow>
        \<not> isValid (validate_data py first_name (Some s) investment_amount risk_level req) \<and>
        violatedSlot (validate_data py first_name (Some s) investment_amount risk_level req) =
          Some ''age'')"
proof (cases "n < 1 \<or> 64 < n")
  case True
  with assms(1) have "spec_age_violation py (Some s)"
    by (simp add: spec_age_violation_def)
  from validate_data_age [OF assms(2) this, of investment_amount risk_level req]
  obtain c where "validate_data py first_name (Some s) investment_amount risk_level req =
      build_validation_result False (Some ''age'') (Some c)"
    by fast
  with True show ?thesis
    by (auto simp: build_validation_result_Some)
next
  case False
  with assms(1) have "\<not> spec_age_violation py (Some s)"
    by (simp add: spec_age_violation_def)
  from validate_data_valid [OF assms(2) this assms(3,4), of req]
  have "validate_data py first_name (Some s) investment_amount risk_level req =
      build_validation_result True None None" .
  with False show ?thesis
    by (auto simp: build_validation_result_None)
qed

theorem validate_data_age_range_witness:
  "py_int plain_builtins ''1'' = Some 1 \<and> py_int plain_builtins ''64'' = Some 64 \<and>
   py_int plain_builtins ''0'' = Some 0 \<and> py_int plain_builtins ''65'' = Some 65 \<and>
   isValid (validate_data plain_builtins None (Some ''1'') None None
      (example_request ''DialogCodeHook'' Map.empty)) \<and>
   isValid (validate_data plain_builtins (Some ''Jo'') (Some ''64'') (Some ''10000'') (Some ''Mid'')
      (example_request ''DialogCodeHook'' Map.empty)) \<and>
   \<not> isValid (validate_data plain_builtins None (Some ''0'') None None
      (example_request ''DialogCodeHook'' Map.empty)) \<and>
   violatedSlot (validate_data plain_builtins None (Some ''0'') None None
      (example_request ''DialogCodeHook'' Map.empty)) = Some ''age'' \<and>
   \<not> isValid (validate_data plain_builtins (Some ''Jo'') (Some ''65'') (Some ''10000'') (Some ''Mid'')
      (example_request ''DialogCodeHook'' Map.empty)) \<and>
   violatedSlot (validate_data plain_builtins (Some ''Jo'') (Some ''65'') (Some ''10000'')
      (Some ''Mid'') (example_request ''DialogCodeHook'' Map.empty)) = Some ''age''"
proof -
  have p: "py_int plain_builtins ''1'' = Some 1" "py_int plain_builtins ''64'' = Some 64"
      "py_int plain_builtins ''0'' = Some 0" "py_int plain_builtins ''65'' = Some 65"
    by code_simp+
  have n: "\<not> spec_name_violation None" "\<not> spec_name_violation (Some ''Jo'')"
    by (simp_all add: spec_name_violation_def)
  have m: "\<not> spec_amount_violation plain_builtins None"
      "\<not> spec_amount_violation plain_builtins (Some ''10000'')"
    by code_simp+
  have r: "\<not> spec_risk_violation None" "\<not> spec_risk_violation (Some ''Mid'')"
    by (simp_all add: spec_risk_violation_def)
  from validate_data_age_range [OF p(1) n(1) m(1) r(1),
      of "example_request ''DialogCodeHook'' Map.empty"]
  have v1: "isValid (validate_data plain_builtins None (Some ''1'') None None
      (example_request ''DialogCodeHook'' Map.empty))"
    by simp
  from validate_data_age_range [OF p(2) n(2) m(2) r(2),
      of "example_request ''DialogCodeHook'' Map.empty"]
  have v2: "isValid (validate_data plain_builtins (Some ''Jo'') (Some ''64'') (Some ''10000'')
      (Some ''Mid'') (example_request ''DialogCodeHook'' Map.empty))"
    by simp
  from validate_data_age_range [OF p(3) n(1) m(1) r(1),
      of "example_request ''DialogCodeHook'' Map.empty"]
  have v3: "\<not> isValid (validate_data plain_builtins None (Some ''0'') None None
      (example_request ''DialogCodeHook'' Map.empty)) \<and>
    violatedSlot (validate_data plain_builtins None (Some ''0'') None None
      (example_request ''DialogCodeHook'' Map.empty)) = Some ''age''"
    by simp
  from validate_data_age_range [OF p(4) n(2) m(2) r(2),
      of "example_request ''DialogCodeHook'' Map.empty"]
  have v4: "\<not> isValid (validate_data plain_builtins (Some ''Jo'') (Some ''65'') (Some ''10000'')
      (Some ''Mid'') (example_request ''DialogCodeHook'' Map.empty)) \<and>
    violatedSlot (validate_data plain_builtins (Some ''Jo'') (Some ''65'') (Some ''10000'')
      (Some ''Mid'') (example_request ''DialogCodeHook'' Map.empty)) = Some ''age''"
    by simp
  from p v1 v2 v3 v4 show ?thesis by simp
qed

text \<open>
  C9. For a present risk level, the other slots being absent or not in violation:
  \<^verbatim>\<open>validate_data\<close> returns a valid result exactly when the text is, character for
  character, one of Maximum, Very High, High, Mid, Low, Very Low, None; otherwise it returns
  an invalid result whose violated slot is \<^verbatim>\<open>riskLevel\<close>.
\<close>

theorem validate_data_risk_level:
  fixes req :: "'a intent_request"
  assumes "\<not> spec_name_violation first_name"
    and "\<not> spec_age_violation py age"
    and "\<not> spec_amount_violation py investment_amount"
  shows
    "(isValid (validate_data py first_name age investment_amount (Some s) req) \<longleftrightarrow>
        s \<in> {''Maximum'', ''Very High'', ''High'', ''Mid'', ''Low'', ''Very Low'', ''None''}) \<and>
     (s \<notin> {''Maximum'', ''Very High'', ''High'', ''Mid'', ''Low'', ''Very Low'', ''None''} \<longrightarrow>
        \<not> isValid (validate_data py first_name age investment_amount (Some s) req) \<and>
        violatedSlot (validate_data py first_name age investment_amount (Some s) req) =
          Some ''riskLevel'')"
proof (cases "spec_risk_violation (Some s)")
  case True
  from validate_data_risk [OF assms True, of req]
  have "validate_data py first_name age investment_amount (Some s) req =
      build_validation_result False (Some ''riskLevel'') (Some msg_bad_risk)" .
  moreover from True
  have "s \<notin> {''Maximum'', ''Very High'', ''High'', ''Mid'', ''Low'', ''Very Low'', ''None''}"
    by (simp add: spec_risk_violation_def)
  ultimately show ?thesis
    by (simp add: build_validation_result_Some)
next
  case False
  from validate_data_valid [OF assms False, of req]
  have "validate_data py first_name age investment_amount (Some s) req =
      build_validation_result True None None" .
  moreover from False
  have "s \<in> {''Maximum'', ''Very High'', ''High'', ''Mid'', ''Low'', ''Very Low'', ''None''}"
    by (simp add: spec_risk_violation_def)
  ultimately show ?thesis
    by (simp add: build_validation_result_None)
qed

theorem validate_data_risk_level_witness:
  "isValid (validate_data plain_builtins (Some ''Jo'') (Some ''30'') (Some ''10000'')
      (Some ''Maximum'') (example_request ''DialogCodeHook'' Map.empty)) \<and>
   isValid (validate_data plain_builtins (Some ''Jo'') (Some ''30'') (Some ''10000'')
      (Some ''Very High'') (example_request ''DialogCodeHook'' Map.empty)) \<and>
   isValid (validate_data plain_builtins (Some ''Jo'') (Some ''30'') (Some ''10000'')
      (Some ''High'') (example_request ''DialogCodeHook'' Map.empty)) \<and>
   isValid (validate_data plain_builtins (Some ''Jo'') (Some ''30'') (Some ''10000'')
      (Some ''Mid'') (example_request ''DialogCodeHook'' Map.empty)) \<and>
   isValid (validate_data plain_builtins (Some ''Jo'') (Some ''30'') (Some ''10000'')
      (Some ''Low'') (example_request ''DialogCodeHook'' Map.empty)) \<and>
   isValid (validate_data plain_builtins (Some ''Jo'') (Some ''30'') (Some ''10000'')
      (Some ''Very Low'') (example_request ''DialogCodeHook'' Map.empty)) \<and>
   isValid (validate_data plain_builtins (Some ''Jo'') (Some ''30'') (Some ''10000'')
      (Some ''None'') (example_request ''DialogCodeHook'' Map.empty)) \<and>
   \<not> isValid (validate_data plain_builtins (Some ''Jo'') (Some ''30'') (Some ''10000'')
      (Some ''mid'') (example_request ''DialogCodeHook'' Map.empty)) \<and>
   violatedSlot (validate_data plain_builtins (Some ''Jo'') (Some ''30'') (Some ''10000'')
      (Some ''mid'') (example_request ''DialogCodeHook'' Map.empty)) = Some ''riskLevel'' \<and>
   \<not> isValid (validate_data plain_builtins None None None (Some ''Very  High'')
      (example_request ''DialogCodeHook'' Map.empty)) \<and>
   violatedSlot (validate_data plain_builtins None None None (Some ''Very  High'')
      (example_request ''DialogCodeHook'' Map.empty)) = Some ''riskLevel''"
proof -
  have n: "\<not> spec_name_violation None" "\<not> spec_name_violation (Some ''Jo'')"
    by (simp_all add: spec_name_violation_def)
  have a: "\<not> spec_age_violation plain_builtins None"
      "\<not> spec_age_violation plain_builtins (Some ''30'')"
    by code_simp+
  have m: "\<not> spec_amount_violation plain_builtins None"
      "\<not> spec_amount_violation plain_builtins (Some ''10000'')"
    by code_simp+
  note full = validate_data_risk_level [OF n(2) a(2) m(2),
      where req = "example_request ''DialogCodeHook'' Map.empty"]
  note bare = validate_data_risk_level [OF n(1) a(1) m(1),
      where req = "example_request ''DialogCodeHook'' Map.empty"]
  have l1: "isValid (validate_data plain_builtins (Some ''Jo'') (Some ''30'') (Some ''10000'')
      (Some ''Maximum'') (example_request ''DialogCodeHook'' Map.empty))"
    using full [of "''Maximum''"] by simp
  have l2: "isValid (validate_data plain_builtins (Some ''Jo'') (Some ''30'') (Some ''10000'')
      (Some ''Very High'') (example_request ''DialogCodeHook'' Map.empty))"
    using full [of "''Very High''"] by simp
  have l3: "isValid (validate_data plain_builtins (Some ''Jo'') (Some ''30'') (Some ''10000'')
      (Some ''High'') (example_request ''DialogCodeHook'' Map.empty))"
    using full [of "''High''"] by simp
  have l4: "isValid (validate_data plain_builtins (Some ''Jo'') (Some ''30'') (Some ''10000'')
      (Some ''Mid'') (example_request ''DialogCodeHook'' Map.empty))"
    using full [of "''Mid''"] by simp
  have l5: "isValid (validate_data plain_builtins (Some ''Jo'') (Some ''30'') (Some ''10000'')
      (Some ''Low'') (example_request ''DialogCodeHook'' Map.empty))"
    using full [of "''Low''"] by simp
  have l6: "isValid (validate_data plain_builtins (Some ''Jo'') (Some ''30'') (Some ''10000'')
      (Some ''Very Low'') (example_request ''DialogCodeHook'' Map.empty))"
    using full [of "''Very Low''"] by simp
  have l7: "isValid (validate_data plain_builtins (Some ''Jo'') (Some ''30'') (Some ''10000'')
      (Some ''None'') (example_request ''DialogCodeHook'' Map.empty))"
    using full [of "''None''"] by simp
  have v2: "\<not> isValid (validate_data plain_builtins (Some ''Jo'') (Some ''30'') (Some ''10000'')
      (Some ''mid'') (example_request ''DialogCodeHook'' Map.empty)) \<and>
    violatedSlot (validate_data plain_builtins (Some ''Jo'') (Some ''30'') (Some ''10000'')
      (Some ''mid'') (example_request ''DialogCodeHook'' Map.empty)) = Some ''riskLevel''"
    using full [of "''mid''"] by simp
  have v3: "\<not> isValid (validate_data plain_builtins None None None (Some ''Very  High'')
      (example_request ''DialogCodeHook'' Map.empty)) \<and>
    violatedSlot (validate_data plain_builtins None None None (Some ''Very  High'')
      (example_request ''DialogCodeHook'' Map.empty)) = Some ''riskLevel''"
    using bare [of "''Very  High''"] by simp
  from l1 l2 l3 l4 l5 l6 l7 v2 v3 show ?thesis by simp
qed

text \<open>
  C2. A present age whose text \<^verbatim>\<open>int\<close> rejects, or a present investment amount whose text
  \<^verbatim>\<open>float\<close> rejects, becomes not-a-number, which is neither below 1, nor above 64, nor at
  most 5000; with the other slots absent or not in violation, \<^verbatim>\<open>validate_data\<close> then
  returns a valid result: malformed numeric text is accepted.
\<close>

theorem validate_data_accepts_malformed_numbers:
  fixes req :: "'a intent_request"
  shows
    "(py_int py s = None \<and> \<not> spec_name_violation first_name \<and>
      \<not> spec_amount_violation py investment_amount \<and> \<not> spec_risk_violation risk_level \<longrightarrow>
        parse_int py s = PyFloat NaN \<and>
        isValid (validate_data py first_name (Some s) investment_amount risk_level req) \<and>
        violatedSlot (validate_data py first_name (Some s) investment_amount risk_level req) =
          None) \<and>
     (py_float py s = None \<and> \<not> spec_name_violation first_name \<and>
      \<not> spec_age_violation py age \<and> \<not> spec_risk_violation risk_level \<longrightarrow>
        parse_float py s = NaN \<and>
        isValid (validate_data py first_name age (Some s) risk_level req) \<and>
        violatedSlot (validate_data py first_name age (Some s) risk_level req) = None) \<and>
     \<not> num_lt (PyFloat NaN) 1 \<and> \<not> num_gt (PyFloat NaN) 64 \<and> \<not> float_le NaN 5000"
proof (intro conjI impI)
  assume h: "py_int py s = None \<and> \<not> spec_name_violation first_name \<and>
      \<not> spec_amount_violation py investment_amount \<and> \<not> spec_risk_violation risk_level"
  then show "parse_int py s = PyFloat NaN"
    by (simp add: parse_int_def)
  from h have "\<not> spec_age_violation py (Some s)"
    by (simp add: spec_age_violation_def)
  with h validate_data_valid [of first_name py "Some s" investment_amount risk_level req]
  have "validate_data py first_name (Some s) investment_amount risk_level req =
      build_validation_result True None None"
    by fast
  then show "isValid (validate_data py first_name (Some s) investment_amount risk_level req)"
    and "violatedSlot (validate_data py first_name (Some s) investment_amount risk_level req) =
          None"
    by (simp_all add: build_validation_result_None)
next
  assume h: "py_float py s = None \<and> \<not> spec_name_violation first_name \<and>
      \<not> spec_age_violation py age \<and> \<not> spec_risk_violation risk_level"
  then show "parse_float py s = NaN"
    by (simp add: parse_float_def)
  from h have "\<not> spec_amount_violation py (Some s)"
    by (simp add: spec_amount_violation_def)
  with h validate_data_valid [of first_name py age "Some s" risk_level req]
  have "validate_data py first_name age (Some s) risk_level req =
      build_validation_result True None None"
    by fast
  then show "isValid (validate_data py first_name age (Some s) risk_level req)"
    and "violatedSlot (validate_data py first_name age (Some s) risk_level req) = None"
    by (simp_all add: build_validation_result_None)
qed simp_all

theorem validate_data_accepts_malformed_numbers_witness:
  "py_int plain_builtins ''abc'' = None \<and> py_int plain_builtins ''30.5'' = None \<and>
   py_float plain_builtins ''abc'' = None \<and>
   isValid (validate_data plain_builtins None (Some ''abc'') None None
      (example_request ''DialogCodeHook'' Map.empty)) \<and>
   isValid (validate_data plain_builtins (Some ''Jo'') (Some ''30.5'') (Some ''10000'')
      (Some ''Mid'') (example_request ''DialogCodeHook'' Map.empty)) \<and>
   isValid (validate_data plain_builtins (Some ''Jo'') (Some ''30'') (Some ''abc'')
      (Some ''Mid'') (example_request ''DialogCodeHook'' Map.empty)) \<and>
   isValid (validate_data plain_builtins (Some ''Jo'') (Some ''abc'') (Some ''abc'')
      (Some ''Mid'') (example_request ''DialogCodeHook'' Map.empty))"
proof -
  have p: "py_int plain_builtins ''abc'' = None" "py_int plain_builtins ''30.5'' = None"
      "py_float plain_builtins ''abc'' = None"
    by code_simp+
  have n: "\<not> spec_name_violation None" "\<not> spec_name_violation (Some ''Jo'')"
    by (simp_all add: spec_name_violation_def)
  have a: "\<not> spec_age_violation plain_builtins (Some ''30'')"
      "\<not> spec_age_violation plain_builtins (Some ''abc'')"
    by code_simp+
  have m: "\<not> spec_amount_violation plain_builtins None"
      "\<not> spec_amount_violation plain_builtins (Some ''10000'')"
      "\<not> spec_amount_violation plain_builtins (Some ''abc'')"
    by code_simp+
  have r: "\<not> spec_risk_violation None" "\<not> spec_risk_violation (Some ''Mid'')"
    by (simp_all add: spec_risk_violation_def)
  have v1: "isValid (validate_data plain_builtins None (Some ''abc'') None None
      (example_request ''DialogCodeHook'' Map.empty))"
    using p(1) n(1) m(1) r(1)
      validate_data_accepts_malformed_numbers [where py = plain_builtins and s = "''abc''"
        and first_name = None and investment_amount = None and risk_level = None
        and req = "example_request ''DialogCodeHook'' Map.empty"]
    by simp
  have v2: "isValid (validate_data plain_builtins (Some ''Jo'') (Some ''30.5'') (Some ''10000'')
      (Some ''Mid'') (example_request ''DialogCodeHook'' Map.empty))"
    using p(2) n(2) m(2) r(2)
      validate_data_accepts_malformed_numbers [where py = plain_builtins and s = "''30.5''"
        and first_name = "Some ''Jo''" and investment_amount = "Some ''10000''"
        and risk_level = "Some ''Mid''"
        and req = "example_request ''DialogCodeHook'' Map.empty"]
    by simp
  have v3: "isValid (validate_data plain_builtins (Some ''Jo'') (Some ''30'') (Some ''abc'')
      (Some ''Mid'') (example_request ''DialogCodeHook'' Map.empty))"
    using p(3) n(2) a(1) r(2)
      validate_data_accepts_malformed_numbers [where py = plain_builtins and s = "''abc''"
        and first_name = "Some ''Jo''" and age = "Some ''30''"
        and risk_level = "Some ''Mid''"
        and req = "example_request ''DialogCodeHook'' Map.empty"]
    by simp
  have v4: "isValid (validate_data plain_builtins (Some ''Jo'') (Some ''abc'') (Some ''abc'')
      (Some ''Mid'') (example_request ''DialogCodeHook'' Map.empty))"
    using p(1) n(2) m(3) r(2)
      validate_data_accepts_malformed_numbers [where py = plain_builtins and s = "''abc''"
        and first_name = "Some ''Jo''" and investment_amount = "Some ''abc''"
        and risk_level = "Some ''Mid''"
        and req = "example_request ''DialogCodeHook'' Map.empty"]
    by simp
  from p v1 v2 v3 v4 show ?thesis by simp
qed

text \<open>
  C7. In the dialog phase (\<^verbatim>\<open>invocationSource\<close> is \<^verbatim>\<open>DialogCodeHook\<close>), when the four
  slots of the request pass validation, \<^verbatim>\<open>recommend_portfolio\<close> returns a Delegate
  response that carries the slot bag of the request unmodified and its session attributes
  unchanged.
\<close>

theorem recommend_portfolio_delegates:
  assumes "invocationSource req = ''DialogCodeHook''"
    and "slots (currentIntent req) (Some ''firstName'') = Some first_name"
    and "slots (currentIntent req) (Some ''age'') = Some age"
    and "slots (currentIntent req) (Some ''investmentAmount'') = Some investment_amount"
    and "slots (currentIntent req) (Some ''riskLevel'') = Some risk_level"
    and "isValid (validate_data py first_name age investment_amount risk_level req)"
  shows "recommend_portfolio py req =
           Inr \<lparr>out_sessionAttributes = sessionAttributes req,
                dialogAction = Delegate (slots (currentIntent req))\<rparr>"
  using assms(1) dialog_code_hook_valid [OF assms(6)]
  by (simp add: recommend_portfolio_slots_present [OF assms(2-5)])

theorem recommend_portfolio_delegates_witness:
  "recommend_portfolio plain_builtins
     (example_request ''DialogCodeHook''
        (example_slots (Some ''Jo'') (Some ''30'') (Some ''10000'') (Some ''Mid''))) =
   Inr \<lparr>out_sessionAttributes = [(''user'', ''42'')],
        dialogAction =
          Delegate (example_slots (Some ''Jo'') (Some ''30'') (Some ''10000'') (Some ''Mid''))\<rparr>"
proof -
  let ?req = "example_request ''DialogCodeHook''
        (example_slots (Some ''Jo'') (Some ''30'') (Some ''10000'') (Some ''Mid''))"
  have src: "invocationSource ?req = ''DialogCodeHook''"
    by (simp add: example_request_def)
  have s1: "slots (currentIntent ?req) (Some ''firstName'') = Some (Some ''Jo'')"
    and s2: "slots (currentIntent ?req) (Some ''age'') = Some (Some ''30'')"
    and s3: "slots (currentIntent ?req) (Some ''investmentAmount'') = Some (Some ''10000'')"
    and s4: "slots (currentIntent ?req) (Some ''riskLevel'') = Some (Some ''Mid'')"
    by (simp_all add: example_request_def example_slots_def)
  have valid: "isValid (validate_data plain_builtins (Some ''Jo'') (Some ''30'') (Some ''10000'')
      (Some ''Mid'') ?req)"
    by code_simp
  from recommend_portfolio_delegates [OF src s1 s2 s3 s4 valid]
  show ?thesis by (simp add: example_request_def)
qed

text \<open>
  C5. In the dialog phase, when the four slots of the request fail validation,
  \<^verbatim>\<open>recommend_portfolio\<close> returns an ElicitSlot response: the slot to elicit is the
  violated slot, the message is the message of the violation, the session attributes are
  those of the request, and the slot bag is that of the request with the violated slot set
  to \<^verbatim>\<open>None\<close> and every other slot as it was.
\<close>

theorem recommend_portfolio_elicits_violated_slot:
  assumes "invocationSource req = ''DialogCodeHook''"
    and "slots (currentIntent req) (Some ''firstName'') = Some first_name"
    and "slots (currentIntent req) (Some ''age'') = Some age"
    and "slots (currentIntent req) (Some ''investmentAmount'') = Some investment_amount"
    and "slots (currentIntent req) (Some ''riskLevel'') = Some risk_level"
    and "\<not> isValid (validate_data py first_name age investment_amount risk_level req)"
  shows "\<exists>v m slots'.
           v \<in> slot_names \<and>
           violatedSlot (validate_data py first_name age investment_amount risk_level req) =
             Some v \<and>
           message (validate_data py first_name age investment_amount risk_level req) =
             Some m \<and>
           recommend_portfolio py req =
             Inr \<lparr>out_sessionAttributes = sessionAttributes req,
                  dialogAction =
                    ElicitSlot (name (currentIntent req)) slots' (Some v) m\<rparr> \<and>
           slots' (Some v) = Some None \<and>
           (\<forall>k. k \<noteq> Some v \<longrightarrow> slots' k = slots (currentIntent req) k)"
proof -
  let ?r = "validate_data py first_name age investment_amount risk_level req"
  from validate_data_shape [of py first_name age investment_amount risk_level req] assms(6)
  obtain v c where v: "v \<in> slot_names"
    and r: "?r = build_validation_result False (Some v) (Some c)"
    by (auto simp: build_validation_result_None)
  let ?m = "\<lparr>contentType = ''PlainText'', content = c\<rparr>"
  let ?slots = "(slots (currentIntent req))(Some v \<mapsto> None)"
  from r have vs: "violatedSlot ?r = Some v" and ms: "message ?r = Some ?m"
    by (simp_all add: build_validation_result_Some)
  from assms(1) dialog_code_hook_invalid [OF assms(6) vs ms]
  have "recommend_portfolio py req =
      Inr \<lparr>out_sessionAttributes = sessionAttributes req,
           dialogAction = ElicitSlot (name (currentIntent req)) ?slots (Some v) ?m\<rparr>"
    by (simp add: recommend_portfolio_slots_present [OF assms(2-5)])
  moreover have "?slots (Some v) = Some None"
    and "\<forall>k. k \<noteq> Some v \<longrightarrow> ?slots k = slots (currentIntent req) k"
    by simp_all
  ultimately show ?thesis using v vs ms by blast
qed

theorem recommend_portfolio_elicits_violated_slot_witness:
  "recommend_portfolio plain_builtins
     (example_request ''DialogCodeHook'' (example_slots None None (Some ''3000'') None)) =
   Inr \<lparr>out_sessionAttributes = [(''user'', ''42'')],
        dialogAction =
          ElicitSlot ''RecommendPortfolio'' (example_slots None None None None)
            (Some ''investmentAmount'')
            \<lparr>contentType = ''PlainText'',
             content = msg_low_amount plain_builtins (Finite 3000)\<rparr>\<rparr>"
proof -
  let ?req = "example_request ''DialogCodeHook'' (example_slots None None (Some ''3000'') None)"
  let ?r = "validate_data plain_builtins None None (Some ''3000'') None ?req"
  have src: "invocationSource ?req = ''DialogCodeHook''"
    by (simp add: example_request_def)
  have s1: "slots (currentIntent ?req) (Some ''firstName'') = Some None"
    and s2: "slots (currentIntent ?req) (Some ''age'') = Some None"
    and s3: "slots (currentIntent ?req) (Some ''investmentAmount'') = Some (Some ''3000'')"
    and s4: "slots (currentIntent ?req) (Some ''riskLevel'') = Some None"
    by (simp_all add: example_request_def example_slots_def)
  have "py_float plain_builtins ''3000'' = Some (Finite 3000)"
    by code_simp
  moreover have "\<not> spec_name_violation None" "\<not> spec_age_violation plain_builtins None"
    by (simp_all add: spec_name_violation_def spec_age_violation_def)
  ultimately have r: "?r = build_validation_result False (Some ''investmentAmount'')
      (Some (msg_low_amount plain_builtins (Finite 3000)))"
    by (simp add: validate_data_low_amount)
  have invalid: "\<not> isValid ?r"
    and vs: "violatedSlot ?r = Some ''investmentAmount''"
    and ms: "message ?r =
      Some \<lparr>contentType = ''PlainText'', content = msg_low_amount plain_builtins (Finite 3000)\<rparr>"
    by (simp_all only: r build_validation_result_Some validation_result.simps simp_thms)
  from recommend_portfolio_elicits_violated_slot [OF src s1 s2 s3 s4 invalid]
  obtain v m slots' where v: "violatedSlot ?r = Some v" and m: "message ?r = Some m"
    and res: "recommend_portfolio plain_builtins ?req =
      Inr \<lparr>out_sessionAttributes = sessionAttributes ?req,
           dialogAction = ElicitSlot (name (currentIntent ?req)) slots' (Some v) m\<rparr>"
    and cleared: "slots' (Some v) = Some None"
    and frame: "\<forall>k. k \<noteq> Some v \<longrightarrow> slots' k = slots (currentIntent ?req) k"
    by blast
  from v vs have v_eq: "v = ''investmentAmount''" by simp
  from m ms have m_eq:
    "m = \<lparr>contentType = ''PlainText'', content = msg_low_amount plain_builtins (Finite 3000)\<rparr>"
    by simp
  have "slots' k = example_slots None None None None k" for k
  proof (cases "k = Some ''investmentAmount''")
    case True
    with cleared v_eq show ?thesis by (simp add: example_slots_def)
  next
    case False
    with frame v_eq have "slots' k = slots (currentIntent ?req) k" by simp
    with False show ?thesis by (simp add: example_request_def example_slots_def)
  qed
  then have "slots' = example_slots None None None None" by (rule ext)
  with res v_eq m_eq show ?thesis by (simp add: example_request_def)
qed

text \<open>
  C6. In the fulfillment phase (\<^verbatim>\<open>invocationSource\<close> is \<^verbatim>\<open>FulfillmentCodeHook\<close>), when
  the risk level of the request is a key of the recommendation table,
  \<^verbatim>\<open>recommend_portfolio\<close> returns a Close response with fulfillment state
  \<^verbatim>\<open>Fulfilled\<close> and a plain-text message whose content contains the first name of the
  request and the recommendation of the table. Nothing is validated in this phase: the
  result holds for any first name, age and investment amount, and does not depend on the
  conversions of the runtime.
\<close>

theorem recommend_portfolio_fulfills:
  assumes "invocationSource req = ''FulfillmentCodeHook''"
    and "slots (currentIntent req) (Some ''firstName'') = Some first_name"
    and "slots (currentIntent req) (Some ''age'') = Some age"
    and "slots (currentIntent req) (Some ''investmentAmount'') = Some investment_amount"
    and "slots (currentIntent req) (Some ''riskLevel'') = Some risk_level"
    and "risk_rec_map risk_level = Some rec"
  shows "recommend_portfolio py req =
           Inr \<lparr>out_sessionAttributes = sessionAttributes req,
                dialogAction = Close ''Fulfilled''
                  \<lparr>contentType = ''PlainText'',
                   content = recommendation_content first_name rec\<rparr>\<rparr> \<and>
         sublist (format_slot first_name) (recommendation_content first_name rec) \<and>
         sublist rec (recommendation_content first_name rec) \<and>
         (\<forall>n. first_name = Some n \<longrightarrow> sublist n (recommendation_content first_name rec))"
proof -
  from assms(1) fulfillment_found [OF assms(6)]
  have "recommend_portfolio py req =
           Inr \<lparr>out_sessionAttributes = sessionAttributes req,
                dialogAction = Close ''Fulfilled''
                  \<lparr>contentType = ''PlainText'',
                   content = recommendation_content first_name rec\<rparr>\<rparr>"
    by (simp add: recommend_portfolio_slots_present [OF assms(2-5)])
  moreover have "\<forall>n. first_name = Some n \<longrightarrow> sublist n (recommendation_content first_name rec)"
    using sublist_recommendation_content(1) [of first_name rec]
    by (auto simp: format_slot_def)
  ultimately show ?thesis
    by (simp add: sublist_recommendation_content)
qed

theorem recommend_portfolio_fulfills_witness:
  "recommend_portfolio plain_builtins
     (example_request ''FulfillmentCodeHook''
        (example_slots (Some ''Jo'') (Some ''200'') None (Some ''High''))) =
   Inr \<lparr>out_sessionAttributes = [(''user'', ''42'')],
        dialogAction = Close ''Fulfilled''
          \<lparr>contentType = ''PlainText'',
           content = recommendation_content (Some ''Jo'')
             ''20% bonds (AGG), 80% equities (SPY)''\<rparr>\<rparr> \<and>
   sublist ''Jo''
     (recommendation_content (Some ''Jo'') ''20% bonds (AGG), 80% equities (SPY)'') \<and>
   sublist ''20% bonds (AGG), 80% equities (SPY)''
     (recommendation_content (Some ''Jo'') ''20% bonds (AGG), 80% equities (SPY)'') \<and>
   spec_age_violation plain_builtins (Some ''200'')"
proof -
  let ?req = "example_request ''FulfillmentCodeHook''
        (example_slots (Some ''Jo'') (Some ''200'') None (Some ''High''))"
  have src: "invocationSource ?req = ''FulfillmentCodeHook''"
    by (simp add: example_request_def)
  have s1: "slots (currentIntent ?req) (Some ''firstName'') = Some (Some ''Jo'')"
    and s2: "slots (currentIntent ?req) (Some ''age'') = Some (Some ''200'')"
    and s3: "slots (currentIntent ?req) (Some ''investmentAmount'') = Some None"
    and s4: "slots (currentIntent ?req) (Some ''riskLevel'') = Some (Some ''High'')"
    by (simp_all add: example_request_def example_slots_def)
  have age: "spec_age_violation plain_builtins (Some ''200'')"
    by code_simp
  from recommend_portfolio_fulfills [OF src s1 s2 s3 s4 risk_rec_map_High, of plain_builtins] age
  show ?thesis by (simp add: example_request_def)
qed

text \<open>
  C1. The risk level \<^verbatim>\<open>Maximum\<close> is one of the seven levels the validator accepts, yet
  it is no key of the recommendation table; so every request of the fulfillment phase whose
  risk level is \<^verbatim>\<open>Maximum\<close> ends \<^verbatim>\<open>recommend_portfolio\<close> with a \<^verbatim>\<open>KeyError\<close>
  instead of a Close response: the \<^verbatim>\<open>KeyError\<close> of the table lookup when the other three
  slot keys are there.
\<close>

theorem recommend_portfolio_maximum_key_error:
  fixes req :: "'a intent_request"
  shows
    "''Maximum'' \<in> set valid_levels \<and>
     isValid (validate_data py None None None (Some ''Maximum'') req) \<and>
     risk_rec_map (Some ''Maximum'') = None \<and>
     (invocationSource req = ''FulfillmentCodeHook'' \<and>
      slots (currentIntent req) (Some ''riskLevel'') = Some (Some ''Maximum'') \<longrightarrow>
        (\<exists>k. recommend_portfolio py req = Inl (KeyError k)) \<and>
        (slots (currentIntent req) (Some ''firstName'') \<noteq> None \<and>
         slots (currentIntent req) (Some ''age'') \<noteq> None \<and>
         slots (currentIntent req) (Some ''investmentAmount'') \<noteq> None \<longrightarrow>
           recommend_portfolio py req = Inl (KeyError (Some ''Maximum''))))"
proof (intro conjI impI)
  show "''Maximum'' \<in> set valid_levels"
    by (simp add: valid_levels_def)
  have "\<not> spec_name_violation None" "\<not> spec_age_violation py None"
      "\<not> spec_amount_violation py None" "\<not> spec_risk_violation (Some ''Maximum'')"
    by (simp_all add: spec_name_violation_def spec_age_violation_def
          spec_amount_violation_def spec_risk_violation_def)
  then show "isValid (validate_data py None None None (Some ''Maximum'') req)"
    by (simp add: validate_data_valid build_validation_result_None)
  show "risk_rec_map (Some ''Maximum'') = None"
    by (rule risk_rec_map_Maximum)
next
  assume h: "invocationSource req = ''FulfillmentCodeHook'' \<and>
      slots (currentIntent req) (Some ''riskLevel'') = Some (Some ''Maximum'')"
  have present: "recommend_portfolio py req = Inl (KeyError (Some ''Maximum''))"
    if p: "slots (currentIntent req) (Some ''firstName'') \<noteq> None \<and>
         slots (currentIntent req) (Some ''age'') \<noteq> None \<and>
         slots (currentIntent req) (Some ''investmentAmount'') \<noteq> None"
  proof -
    from p obtain first_name age investment_amount
      where "slots (currentIntent req) (Some ''firstName'') = Some first_name"
        and "slots (currentIntent req) (Some ''age'') = Some age"
        and "slots (currentIntent req) (Some ''investmentAmount'') = Some investment_amount"
      by auto
    with h show ?thesis
      by (simp add: recommend_portfolio_slots_present
            [where risk_level = "Some ''Maximum''"]
            fulfillment_not_found risk_rec_map_Maximum)
  qed
  then show "slots (currentIntent req) (Some ''firstName'') \<noteq> None \<and>
         slots (currentIntent req) (Some ''age'') \<noteq> None \<and>
         slots (currentIntent req) (Some ''investmentAmount'') \<noteq> None \<Longrightarrow>
           recommend_portfolio py req = Inl (KeyError (Some ''Maximum''))" .
  show "\<exists>k. recommend_portfolio py req = Inl (KeyError k)"
  proof (cases "slots (currentIntent req) (Some ''firstName'') = None")
    case True
    then show ?thesis by (simp add: recommend_portfolio_missing_first_name)
  next
    case n: False
    show ?thesis
    proof (cases "slots (currentIntent req) (Some ''age'') = None")
      case True
      with n show ?thesis by (simp add: recommend_portfolio_missing_age)
    next
      case a: False
      show ?thesis
      proof (cases "slots (currentIntent req) (Some ''investmentAmount'') = None")
        case True
        with n a show ?thesis by (simp add: recommend_portfolio_missing_investment_amount)
      next
        case False
        with n a present show ?thesis by simp
      qed
    qed
  qed
qed

theorem recommend_portfolio_maximum_key_error_witness:
  "recommend_portfolio plain_builtins
     (example_request ''FulfillmentCodeHook''
        (example_slots (Some ''Jo'') (Some ''30'') (Some ''10000'') (Some ''Maximum''))) =
   Inl (KeyError (Some ''Maximum''))"
proof -
  let ?req = "example_request ''FulfillmentCodeHook''
        (example_slots (Some ''Jo'') (Some ''30'') (Some ''10000'') (Some ''Maximum''))"
  have "invocationSource ?req = ''FulfillmentCodeHook''"
    and "slots (currentIntent ?req) (Some ''riskLevel'') = Some (Some ''Maximum'')"
    and "slots (currentIntent ?req) (Some ''firstName'') \<noteq> None"
    and "slots (currentIntent ?req) (Some ''age'') \<noteq> None"
    and "slots (currentIntent ?req) (Some ''investmentAmount'') \<noteq> None"
    by (simp_all add: example_request_def example_slots_def)
  with recommend_portfolio_maximum_key_error [where req = ?req and py = plain_builtins]
  show ?thesis by simp
qed

text \<open>
  C10. \<^verbatim>\<open>recommend_portfolio\<close>, and with it \<^verbatim>\<open>lambda_handler\<close> for the intent
  \<^verbatim>\<open>RecommendPortfolio\<close>, needs the four keys \<^verbatim>\<open>firstName\<close>, \<^verbatim>\<open>age\<close>,
  \<^verbatim>\<open>investmentAmount\<close> and \<^verbatim>\<open>riskLevel\<close> in the slot bag of the request. When one of
  them is missing, the handler ends with the \<^verbatim>\<open>KeyError\<close> of the first missing key, in
  either phase and whatever the slots hold, so before any validation and without a
  response; a key that is present with the value \<^verbatim>\<open>None\<close> is an absent slot instead.
\<close>

theorem recommend_portfolio_requires_slot_keys:
  fixes req :: "'a intent_request"
  shows
    "(slots (currentIntent req) (Some ''firstName'') = None \<longrightarrow>
        recommend_portfolio py req = Inl (KeyError (Some ''firstName''))) \<and>
     (slots (currentIntent req) (Some ''firstName'') \<noteq> None \<and>
      slots (currentIntent req) (Some ''age'') = None \<longrightarrow>
        recommend_portfolio py req = Inl (KeyError (Some ''age''))) \<and>
     (slots (currentIntent req) (Some ''firstName'') \<noteq> None \<and>
      slots (currentIntent req) (Some ''age'') \<noteq> None \<and>
      slots (currentIntent req) (Some ''investmentAmount'') = None \<longrightarrow>
        recommend_portfolio py req = Inl (KeyError (Some ''investmentAmount''))) \<and>
     (slots (currentIntent req) (Some ''firstName'') \<noteq> None \<and>
      slots (currentIntent req) (Some ''age'') \<noteq> None \<and>
      slots (currentIntent req) (Some ''investmentAmount'') \<noteq> None \<and>
      slots (currentIntent req) (Some ''riskLevel'') = None \<longrightarrow>
        recommend_portfolio py req = Inl (KeyError (Some ''riskLevel''))) \<and>
     (name (currentIntent req) = ''RecommendPortfolio'' \<longrightarrow>
        lambda_handler py req ctx = recommend_portfolio py req)"
  by (simp add: recommend_portfolio_missing_first_name recommend_portfolio_missing_age
        recommend_portfolio_missing_investment_amount recommend_portfolio_missing_risk_level
        lambda_handler_def dispatch_def)

theorem recommend_portfolio_requires_slot_keys_witness:
  "recommend_portfolio plain_builtins (example_request ''DialogCodeHook'' Map.empty) =
     Inl (KeyError (Some ''firstName'')) \<and>
   lambda_handler plain_builtins (example_request ''DialogCodeHook'' Map.empty) () =
     Inl (KeyError (Some ''firstName'')) \<and>
   recommend_portfolio plain_builtins
     (example_request ''DialogCodeHook'' [Some ''firstName'' \<mapsto> Some '''']) =
     Inl (KeyError (Some ''age'')) \<and>
   recommend_portfolio plain_builtins
     (example_request ''FulfillmentCodeHook''
        [Some ''firstName'' \<mapsto> Some ''Jo'', Some ''age'' \<mapsto> None,
         Some ''riskLevel'' \<mapsto> Some ''High'']) =
     Inl (KeyError (Some ''investmentAmount'')) \<and>
   recommend_portfolio plain_builtins
     (example_request ''DialogCodeHook''
        [Some ''firstName'' \<mapsto> None, Some ''age'' \<mapsto> None,
         Some ''investmentAmount'' \<mapsto> None]) =
     Inl (KeyError (Some ''riskLevel'')) \<and>
   recommend_portfolio plain_builtins
     (example_request ''DialogCodeHook'' (example_slots None None None None)) =
     Inr \<lparr>out_sessionAttributes = [(''user'', ''42'')],
          dialogAction = Delegate (example_slots None None None None)\<rparr>"
proof -
  note keys = recommend_portfolio_requires_slot_keys [where py = plain_builtins and ctx = "()"]
  have v1: "recommend_portfolio plain_builtins (example_request ''DialogCodeHook'' Map.empty) =
     Inl (KeyError (Some ''firstName''))"
    using keys [of "example_request ''DialogCodeHook'' Map.empty"]
    by (simp add: example_request_def)
  have v1': "lambda_handler plain_builtins (example_request ''DialogCodeHook'' Map.empty) () =
     recommend_portfolio plain_builtins (example_request ''DialogCodeHook'' Map.empty)"
    using keys [of "example_request ''DialogCodeHook'' Map.empty"]
    by (simp add: example_request_def)
  have v2: "recommend_portfolio plain_builtins
     (example_request ''DialogCodeHook'' [Some ''firstName'' \<mapsto> Some '''']) =
     Inl (KeyError (Some ''age''))"
    using keys [of "example_request ''DialogCodeHook'' [Some ''firstName'' \<mapsto> Some '''']"]
    by (simp add: example_request_def)
  have v3: "recommend_portfolio plain_builtins
     (example_request ''FulfillmentCodeHook''
        [Some ''firstName'' \<mapsto> Some ''Jo'', Some ''age'' \<mapsto> None,
         Some ''riskLevel'' \<mapsto> Some ''High'']) =
     Inl (KeyError (Some ''investmentAmount''))"
    using keys [of "example_request ''FulfillmentCodeHook''
        [Some ''firstName'' \<mapsto> Some ''Jo'', Some ''age'' \<mapsto> None,
         Some ''riskLevel'' \<mapsto> Some ''High'']"]
    by (simp add: example_request_def)
  have v4: "recommend_portfolio plain_builtins
     (example_request ''DialogCodeHook''
        [Some ''firstName'' \<mapsto> None, Some ''age'' \<mapsto> None,
         Some ''investmentAmount'' \<mapsto> None]) =
     Inl (KeyError (Some ''riskLevel''))"
    using keys [of "example_request ''DialogCodeHook''
        [Some ''firstName'' \<mapsto> None, Some ''age'' \<mapsto> None,
         Some ''investmentAmount'' \<mapsto> None]"]
    by (simp add: example_request_def)
  let ?req = "example_request ''DialogCodeHook'' (example_slots None None None None)"
  have "\<not> spec_name_violation None" "\<not> spec_age_violation plain_builtins None"
      "\<not> spec_amount_violation plain_builtins None" "\<not> spec_risk_violation None"
    by (simp_all add: spec_name_violation_def spec_age_violation_def
          spec_amount_violation_def spec_risk_violation_def)
  then have "isValid (validate_data plain_builtins None None None None ?req)"
    by (simp add: validate_data_valid build_validation_result_None)
  from dialog_code_hook_valid [OF this]
  have v5: "recommend_portfolio plain_builtins ?req =
     Inr \<lparr>out_sessionAttributes = [(''user'', ''42'')],
          dialogAction = Delegate (example_slots None None None None)\<rparr>"
    by (simp add: recommend_portfolio_slots_present [where first_name = None and age = None
          and investment_amount = None and risk_level = None]
        example_request_def example_slots_def)
  from v1 v1' v2 v3 v4 v5 show ?thesis by simp
qed

end
